theory Spec2Isabelle
  imports Complex_Main "HOL-Library.Sublist"
begin

section \<open>Python values\<close>

text \<open>
  A Python \<open>str\<close> is a sequence of Unicode code points and \<open>len\<close> counts code points,
  so a string is a list of code points. \<open>py\<close> turns an ASCII literal into one.
\<close>

type_synonym pystr = "nat list"

definition py :: "string \<Rightarrow> pystr" where
  "py cs = map of_char cs"

text \<open>
  The values \<open>Response.json()\<close> can return, and the values the handlers hand to the
  \<open>json=\<close> argument of the client. A Python \<open>float\<close> is a rational or one of
  the three special values that \<open>json.loads\<close> accepts. A \<open>dict\<close> keeps its items in
  order; its keys are unique, so the first binding is the binding.
\<close>

datatype pyfloat = Finite rat | PosInf | NegInf | NaN

datatype json =
    JNull
  | JBool bool
  | JInt int
  | JFloat pyfloat
  | JStr pystr
  | JArr "json list"
  | JObj "(pystr \<times> json) list"

text \<open>
  The exceptions that can leave a handler. \<open>IntValueError\<close> is the \<open>ValueError\<close> of
  \<open>int()\<close> (an invalid literal, or a decimal literal over the interpreter's digit limit);
  \<open>JSONDecodeError\<close> stands for what \<open>Response.json()\<close> raises on a body it cannot
  decode; \<open>TransportError\<close> stands for
  the exceptions of \<open>httpx\<close> for a request that got no response; \<open>CookieConflict\<close> is
  the one of \<open>httpx\<close>'s \<open>Cookies.get\<close>.
\<close>

datatype error =
    ValueError pystr
  | RuntimeError pystr
  | HTTPStatusError nat
  | TransportError
  | CookieConflict
  | JSONDecodeError
  | IntValueError
  | KeyError pystr
  | IndexError
  | TypeError
  | AttributeError

fun sum_bind :: "error + 'a \<Rightarrow> ('a \<Rightarrow> error + 'b) \<Rightarrow> error + 'b" where
  "sum_bind (Inl e) f = Inl e"
| "sum_bind (Inr a) f = f a"

text \<open>Truth value testing (\<open>not x\<close>, \<open>x or y\<close>, \<open>if x\<close>).\<close>

fun truthy :: "json \<Rightarrow> bool" where
  "truthy JNull = False"
| "truthy (JBool b) = b"
| "truthy (JInt i) = (i \<noteq> 0)"
| "truthy (JFloat f) = (case f of Finite r \<Rightarrow> r \<noteq> 0 | _ \<Rightarrow> True)"
| "truthy (JStr s) = (s \<noteq> [])"
| "truthy (JArr xs) = (xs \<noteq> [])"
| "truthy (JObj kvs) = (kvs \<noteq> [])"

text \<open>A query parameter or cookie read with \<open>.get(name)\<close>: \<open>None\<close> or a \<open>str\<close>.\<close>

fun truthy_opt :: "pystr option \<Rightarrow> bool" where
  "truthy_opt None = False"
| "truthy_opt (Some s) = (s \<noteq> [])"

text \<open>
  Subscription \<open>x[k]\<close> with a string key: a \<open>dict\<close> raises \<open>KeyError\<close> for a missing
  key, every other value raises \<open>TypeError\<close> (a list or a string wants an integer
  index, the rest is not subscriptable).
\<close>

fun getitem :: "json \<Rightarrow> pystr \<Rightarrow> error + json" where
  "getitem (JObj kvs) k = (case map_of kvs k of None \<Rightarrow> Inl (KeyError k) | Some v \<Rightarrow> Inr v)"
| "getitem _ k = Inl TypeError"

text \<open>
  The method call \<open>x.get(k, d)\<close>: only a \<open>dict\<close> has the method, every other value
  raises \<open>AttributeError\<close>.
\<close>

fun get_method :: "json \<Rightarrow> pystr \<Rightarrow> json \<Rightarrow> error + json" where
  "get_method (JObj kvs) k d = Inr (case map_of kvs k of None \<Rightarrow> d | Some v \<Rightarrow> v)"
| "get_method _ k d = Inl AttributeError"

section \<open>The visible text of an HTML body\<close>

subsection \<open>\<open>re.sub(r"<[^>]*>", "", body)\<close>\<close>

text \<open>
  At a \<open><\<close> (60) the pattern matches up to the first \<open>></\<close> (62) that follows, if there
  is one; the match is replaced by the empty string and the scan goes on behind it.
  A \<open><\<close> with no \<open>></\<close> behind it stays.
\<close>

function strip_tags :: "pystr \<Rightarrow> pystr" where
  "strip_tags [] = []"
| "strip_tags (c # cs) =
     (if c = 60 \<and> 62 \<in> set cs
      then strip_tags (tl (dropWhile (\<lambda>x. x \<noteq> 62) cs))
      else c # strip_tags cs)"
  by pat_completeness auto
termination
proof (relation "measure length")
  show "wf (measure length)" by simp
next
  fix c :: nat and cs :: pystr
  assume "c = 60 \<and> 62 \<in> set cs"
  have "length (tl (dropWhile (\<lambda>x. x \<noteq> 62) cs)) \<le> length cs"
    using length_dropWhile_le [of "\<lambda>x. x \<noteq> 62" cs] by simp
  then show "(tl (dropWhile (\<lambda>x. x \<noteq> 62) cs), c # cs) \<in> measure length"
    by simp
next
  fix c :: nat and cs :: pystr
  show "(cs, c # cs) \<in> measure length" by simp
qed

subsection \<open>\<open>html.unescape\<close>\<close>

text \<open>
  The standard library's \<open>unescape\<close> replaces every match of
  \<open>&(#[0-9]+;?|#[xX][0-9a-fA-F]+;?|[^\t\n\f <&#;]{1,32};?)\<close> by what
  \<open>_replace_charref\<close> makes of the group. The table \<open>html.entities.html5\<close> of named
  references (2231 entries) and the interpreter's limit on the digits of a decimal
  literal (\<open>sys.get_int_max_str_digits()\<close>, 0 for no limit) are parameters.
\<close>

definition is_digit :: "nat \<Rightarrow> bool" where
  "is_digit c \<longleftrightarrow> 48 \<le> c \<and> c \<le> 57"

definition is_hexdigit :: "nat \<Rightarrow> bool" where
  "is_hexdigit c \<longleftrightarrow> is_digit c \<or> (97 \<le> c \<and> c \<le> 102) \<or> (65 \<le> c \<and> c \<le> 70)"

text \<open>The class \<open>[^\t\n\f <&#;]\<close>.\<close>

definition name_char :: "nat \<Rightarrow> bool" where
  "name_char c \<longleftrightarrow> c \<notin> {9, 10, 12, 32, 60, 38, 35, 59}"

text \<open>The trailing \<open>;?\<close> of each alternative, on the text behind it.\<close>

fun opt_semicolon :: "pystr \<Rightarrow> pystr" where
  "opt_semicolon [] = []"
| "opt_semicolon (c # cs) = (if c = 59 then [59] else [])"

definition charref_dec :: "pystr \<Rightarrow> pystr option" where
  "charref_dec cs =
     (case cs of
        [] \<Rightarrow> None
      | c # r \<Rightarrow>
          (let ds = takeWhile is_digit r in
           if c = 35 \<and> ds \<noteq> [] then Some (c # ds @ opt_semicolon (dropWhile is_digit r))
           else None))"

definition charref_hex :: "pystr \<Rightarrow> pystr option" where
  "charref_hex cs =
     (case cs of
        c # x # r \<Rightarrow>
          (let hs = takeWhile is_hexdigit r in
           if c = 35 \<and> (x = 120 \<or> x = 88) \<and> hs \<noteq> []
           then Some (c # x # hs @ opt_semicolon (dropWhile is_hexdigit r))
           else None)
      | _ \<Rightarrow> None)"

definition charref_named :: "pystr \<Rightarrow> pystr option" where
  "charref_named cs =
     (let n = take 32 (takeWhile name_char cs) in
      if n \<noteq> [] then Some (n @ opt_semicolon (drop (length n) cs)) else None)"

text \<open>Group 1 of a match of the pattern right behind an \<open>&\<close>: the alternatives in order.\<close>

definition match_charref :: "pystr \<Rightarrow> pystr option" where
  "match_charref cs =
     (case charref_dec cs of
        Some g \<Rightarrow> Some g
      | None \<Rightarrow> (case charref_hex cs of Some g \<Rightarrow> Some g | None \<Rightarrow> charref_named cs))"

definition rstrip_semicolon :: "pystr \<Rightarrow> pystr" where
  "rstrip_semicolon s = rev (dropWhile (\<lambda>c. c = 59) (rev s))"

definition digit_val :: "nat \<Rightarrow> nat" where
  "digit_val c = (if is_digit c then c - 48 else if 97 \<le> c then c - 87 else c - 55)"

definition int_of_digits :: "nat \<Rightarrow> pystr \<Rightarrow> nat" where
  "int_of_digits base ds = foldl (\<lambda>a d. a * base + digit_val d) 0 ds"

text \<open>
  \<open>int(ds)\<close> and \<open>int(hs, 16)\<close> on what the pattern lets through. A decimal literal of
  more digits than the limit raises; base 16 has no limit.
\<close>

definition int_dec :: "nat \<Rightarrow> pystr \<Rightarrow> error + nat" where
  "int_dec limit ds =
     (if ds = [] \<or> \<not> list_all is_digit ds then Inl IntValueError
      else if 0 < limit \<and> limit < length ds then Inl IntValueError
      else Inr (int_of_digits 10 ds))"

definition int_hex :: "pystr \<Rightarrow> error + nat" where
  "int_hex hs =
     (if hs = [] \<or> \<not> list_all is_hexdigit hs then Inl IntValueError
      else Inr (int_of_digits 16 hs))"

definition invalid_charrefs :: "(nat \<times> pystr) list" where
  "invalid_charrefs =
     [(0x00, [0xFFFD]), (0x0D, [0x0D]), (0x80, [0x20AC]), (0x81, [0x81]),
      (0x82, [0x201A]), (0x83, [0x0192]), (0x84, [0x201E]), (0x85, [0x2026]),
      (0x86, [0x2020]), (0x87, [0x2021]), (0x88, [0x02C6]), (0x89, [0x2030]),
      (0x8A, [0x0160]), (0x8B, [0x2039]), (0x8C, [0x0152]), (0x8D, [0x8D]),
      (0x8E, [0x017D]), (0x8F, [0x8F]), (0x90, [0x90]), (0x91, [0x2018]),
      (0x92, [0x2019]), (0x93, [0x201C]), (0x94, [0x201D]), (0x95, [0x2022]),
      (0x96, [0x2013]), (0x97, [0x2014]), (0x98, [0x02DC]), (0x99, [0x2122]),
      (0x9A, [0x0161]), (0x9B, [0x203A]), (0x9C, [0x0153]), (0x9D, [0x9D]),
      (0x9E, [0x017E]), (0x9F, [0x0178])]"

definition invalid_codepoint :: "nat \<Rightarrow> bool" where
  "invalid_codepoint n \<longleftrightarrow>
     (0x1 \<le> n \<and> n \<le> 0x8) \<or> (0xE \<le> n \<and> n \<le> 0x1F) \<or> (0x7F \<le> n \<and> n \<le> 0x9F) \<or>
     (0xFDD0 \<le> n \<and> n \<le> 0xFDEF) \<or> n = 0xB \<or>
     (n \<le> 0x10FFFF \<and> 0xFFFE \<le> n mod 0x10000)"

definition numeric_charref :: "nat \<Rightarrow> pystr" where
  "numeric_charref num =
     (case map_of invalid_charrefs num of
        Some r \<Rightarrow> r
      | None \<Rightarrow>
          if (0xD800 \<le> num \<and> num \<le> 0xDFFF) \<or> num > 0x10FFFF then [0xFFFD]
          else if invalid_codepoint num then []
          else [num])"

text \<open>
  \<open>for x in range(len(s)-1, 1, -1): if s[:x] in _html5: return _html5[s[:x]] + s[x:]\<close>,
  started at \<open>x = len(s) - 1\<close>.
\<close>

fun longest_name :: "(pystr \<rightharpoonup> pystr) \<Rightarrow> pystr \<Rightarrow> nat \<Rightarrow> pystr option" where
  "longest_name html5 s 0 = None"
| "longest_name html5 s (Suc x) =
     (if Suc x \<le> 1 then None
      else (case html5 (take (Suc x) s) of
              Some v \<Rightarrow> Some (v @ drop (Suc x) s)
            | None \<Rightarrow> longest_name html5 s x))"

definition replace_charref :: "nat \<Rightarrow> (pystr \<rightharpoonup> pystr) \<Rightarrow> pystr \<Rightarrow> error + pystr" where
  "replace_charref limit html5 s =
     (case s of
        [] \<Rightarrow> Inl IndexError
      | c # r \<Rightarrow>
          if c = 35 then
            (case r of
               [] \<Rightarrow> Inl IndexError
             | x # r' \<Rightarrow>
                 sum_bind
                   (if x = 120 \<or> x = 88 then int_hex (rstrip_semicolon r')
                    else int_dec limit (rstrip_semicolon r))
                   (\<lambda>num. Inr (numeric_charref num)))
          else
            (case html5 s of
               Some v \<Rightarrow> Inr v
             | None \<Rightarrow>
                 (case longest_name html5 s (length s - 1) of
                    Some v \<Rightarrow> Inr v
                  | None \<Rightarrow> Inr (38 # s))))"

text \<open>\<open>_charref.sub(_replace_charref, s)\<close>: scan from the left, matches do not overlap.\<close>

function charref_sub :: "nat \<Rightarrow> (pystr \<rightharpoonup> pystr) \<Rightarrow> pystr \<Rightarrow> error + pystr" where
  "charref_sub limit html5 [] = Inr []"
| "charref_sub limit html5 (c # cs) =
     (case (if c = 38 then match_charref cs else None) of
        Some g \<Rightarrow>
          (case replace_charref limit html5 g of
             Inl e \<Rightarrow> Inl e
           | Inr r \<Rightarrow>
               (case charref_sub limit html5 (drop (length g) cs) of
                  Inl e \<Rightarrow> Inl e
                | Inr rest \<Rightarrow> Inr (r @ rest)))
      | None \<Rightarrow>
          (case charref_sub limit html5 cs of
             Inl e \<Rightarrow> Inl e
           | Inr rest \<Rightarrow> Inr (c # rest)))"
  by pat_completeness auto
termination
  by (relation "measure (\<lambda>(limit, html5, s). length s)") auto

definition unescape :: "nat \<Rightarrow> (pystr \<rightharpoonup> pystr) \<Rightarrow> pystr \<Rightarrow> error + pystr" where
  "unescape limit html5 s = (if 38 \<notin> set s then Inr s else charref_sub limit html5 s)"

section \<open>The HTTP client and the remote platform\<close>

datatype http_method = POST | PUT

subsection \<open>The cookie jar\<close>

text \<open>
  What the client reads of a cookie. A \<open>Set-Cookie\<close> header with no \<open>=\<close> gives a cookie
  whose value is \<open>None\<close>.
\<close>

record cookie =
  ck_name :: pystr
  ck_value :: "pystr option"
  ck_domain :: pystr
  ck_path :: pystr

text \<open>
  The jar of \<open>http.cookiejar\<close> that \<open>httpx\<close> wraps is a dictionary by domain, then by path,
  then by name. A dictionary keeps the order in which its keys came in, and a key that is
  set again keeps its place.
\<close>

type_synonym cookiejar = "(pystr \<times> (pystr \<times> (pystr \<times> pystr option) list) list) list"

fun put :: "'k \<Rightarrow> 'v \<Rightarrow> ('k \<times> 'v) list \<Rightarrow> ('k \<times> 'v) list" where
  "put k v [] = [(k, v)]"
| "put k v ((k', v') # kvs) = (if k' = k then (k, v) # kvs else (k', v') # put k v kvs)"

text \<open>\<open>CookieJar.set_cookie\<close>.\<close>

definition set_cookie :: "cookiejar \<Rightarrow> cookie \<Rightarrow> cookiejar" where
  "set_cookie j c =
     (let c2 = (case map_of j (ck_domain c) of None \<Rightarrow> [] | Some paths \<Rightarrow> paths);
          c3 = (case map_of c2 (ck_path c) of None \<Rightarrow> [] | Some names \<Rightarrow> names)
      in put (ck_domain c) (put (ck_path c) (put (ck_name c) (ck_value c) c3) c2) j)"

text \<open>
  \<open>CookieJar.clear(domain, path, name)\<close> as the jar calls it for a cookie that a response
  expires: the \<open>KeyError\<close> for a cookie that is not there is caught.
\<close>

fun clear_cookie :: "cookiejar \<Rightarrow> pystr \<times> pystr \<times> pystr \<Rightarrow> cookiejar" where
  "clear_cookie j (domain, path, name) =
     (case map_of j domain of
        None \<Rightarrow> j
      | Some c2 \<Rightarrow>
          (case map_of c2 path of
             None \<Rightarrow> j
           | Some c3 \<Rightarrow>
               (case map_of c3 name of
                  None \<Rightarrow> j
                | Some _ \<Rightarrow> put domain (put path (filter (\<lambda>(n, v). n \<noteq> name) c3) c2) j)))"

text \<open>Iterating over the jar: domain by domain, path by path, name by name.\<close>

definition jar_cookies :: "cookiejar \<Rightarrow> cookie list" where
  "jar_cookies j =
     concat (map (\<lambda>(d, c2).
       concat (map (\<lambda>(p, c3).
         map (\<lambda>(n, v). \<lparr>ck_name = n, ck_value = v, ck_domain = d, ck_path = p\<rparr>) c3) c2)) j)"

text \<open>
  \<open>client.cookies.get(name)\<close>, the loop of \<open>httpx\<close>'s \<open>Cookies.get\<close> with no domain and no
  path given: a second cookie of the name, found while the value so far is not \<open>None\<close>,
  raises.
\<close>

fun get_loop :: "pystr \<Rightarrow> pystr option \<Rightarrow> cookie list \<Rightarrow> error + pystr option" where
  "get_loop name value [] = Inr value"
| "get_loop name value (c # cs) =
     (if ck_name c = name
      then (if value \<noteq> None then Inl CookieConflict else get_loop name (ck_value c) cs)
      else get_loop name value cs)"

definition cookies_get :: "cookiejar \<Rightarrow> pystr \<Rightarrow> error + pystr option" where
  "cookies_get j name = get_loop name None (jar_cookies j)"

subsection \<open>Requests and responses\<close>

text \<open>
  A request as the handler hands it to the client: method, URL, the \<open>params=\<close> and
  \<open>json=\<close> arguments as given, the headers named in the source (those of the client
  followed by those of the call), and the client's jar at the time of the call, from
  which the client adds the cookies that match the URL.
\<close>

record request =
  req_method :: http_method
  req_url :: pystr
  req_params :: "(pystr \<times> json) list"
  req_headers :: "(pystr \<times> pystr) list"
  req_json :: json
  req_cookies :: cookiejar

text \<open>
  What the handlers and the jar read of a response: the status code, the cookies it
  expires (domain, path, name) and the cookies it sets, as the jar's policy accepts them
  and in the order of their headers, the value of its \<open>Content-Type\<close> header if it has
  one, and the result of \<open>.json()\<close> (\<open>None\<close> when decoding the body raises).
\<close>

record response =
  resp_status :: nat
  resp_expired :: "(pystr \<times> pystr \<times> pystr) list"
  resp_cookies :: "cookie list"
  resp_content_type :: "pystr option"
  resp_json :: "json option"

text \<open>
  \<open>CookieJar.extract_cookies\<close>: the expired cookies are cleared while the response's
  cookies are made, before any of them is set.
\<close>

definition extract_cookies :: "cookiejar \<Rightarrow> response \<Rightarrow> cookiejar" where
  "extract_cookies j resp = foldl set_cookie (foldl clear_cookie j (resp_expired resp)) (resp_cookies resp)"

text \<open>
  Everything outside the two handlers: the query parameters of the transport-level
  request that carries the invocation (\<open>get_http_request().query_params\<close>), the remote
  platform, which answers a request in the light of the requests before it or does not
  answer (\<open>None\<close>), Python's \<open>repr\<close>, and the two parameters of \<open>html.unescape\<close>.
\<close>

record world =
  query_params :: "pystr \<rightharpoonup> pystr"
  server :: "request list \<Rightarrow> request \<Rightarrow> response option"
  py_repr :: "json \<Rightarrow> pystr"
  html5_table :: "pystr \<rightharpoonup> pystr"
  int_max_str_digits :: nat

text \<open>
  The \<open>httpx.Client\<close> of one invocation: its cookie jar and the requests it has issued
  so far.
\<close>

record client =
  jar :: cookiejar
  sent :: "request list"

text \<open>\<open>str(v)\<close> in an f-string: a string is itself, every other value is its \<open>repr\<close>.\<close>

definition py_str :: "world \<Rightarrow> json \<Rightarrow> pystr" where
  "py_str w v = (case v of JStr s \<Rightarrow> s | _ \<Rightarrow> py_repr w v)"

definition default_headers :: "(pystr \<times> pystr) list" where
  "default_headers =
     [(py ''User-Agent'',
       py ''Mozilla/5.0 (Windows NT 10.0; Win64; x64) AppleWebKit(KHTML, like Gecko) Chrome/96.0.4664.110 Safari/537.36''),
      (py ''Accept'', py ''*/*''),
      (py ''Origin'', py ''https://editor.note.com''),
      (py ''Referer'', py ''https://editor.note.com/'')]"

definition content_type_json :: "pystr \<times> pystr" where
  "content_type_json = (py ''Content-Type'', py ''application/json'')"

definition sign_in_url :: pystr where
  "sign_in_url = py ''https://note.com/api/v1/sessions/sign_in''"

definition text_notes_url :: pystr where
  "text_notes_url = py ''https://note.com/api/v1/text_notes''"

definition draft_save_url :: pystr where
  "draft_save_url = py ''https://note.com/api/v1/text_notes/draft_save''"

text \<open>
  The request a call \<open>client.post(u, params=ps, json=j, headers=hs)\<close> (or \<open>put\<close>) of client
  \<open>c\<close> makes.
\<close>

definition build_request ::
  "client \<Rightarrow> http_method \<Rightarrow> pystr \<Rightarrow> (pystr \<times> json) list \<Rightarrow>
   (pystr \<times> pystr) list \<Rightarrow> json \<Rightarrow> request" where
  "build_request c m u ps hs j =
     \<lparr>req_method = m, req_url = u, req_params = ps,
      req_headers = default_headers @ hs, req_json = j, req_cookies = jar c\<rparr>"

text \<open>
  \<open>client.post(...)\<close> and \<open>client.put(...)\<close>: the request is issued and logged; with no
  response the call raises, with one the jar takes the response's cookies.
\<close>

definition send ::
  "world \<Rightarrow> client \<Rightarrow> http_method \<Rightarrow> pystr \<Rightarrow> (pystr \<times> json) list \<Rightarrow>
   (pystr \<times> pystr) list \<Rightarrow> json \<Rightarrow> (error + response) \<times> client" where
  "send w c m u ps hs j =
     (let r = build_request c m u ps hs j
      in case server w (sent c) r of
           None \<Rightarrow> (Inl TransportError, \<lparr>jar = jar c, sent = sent c @ [r]\<rparr>)
         | Some resp \<Rightarrow>
             (Inr resp, \<lparr>jar = extract_cookies (jar c) resp, sent = sent c @ [r]\<rparr>))"

text \<open>\<open>Response.raise_for_status()\<close>: every status outside 200..299 raises.\<close>

definition raise_for_status :: "response \<Rightarrow> error + unit" where
  "raise_for_status r =
     (if 200 \<le> resp_status r \<and> resp_status r \<le> 299 then Inr ()
      else Inl (HTTPStatusError (resp_status r)))"

definition response_json :: "response \<Rightarrow> error + json" where
  "response_json r = (case resp_json r of None \<Rightarrow> Inl JSONDecodeError | Some j \<Rightarrow> Inr j)"

section \<open>The steps both handlers share\<close>

text \<open>
  \<open>post_note_article\<close> (lines 36-67) and \<open>save_note_draft\<close> (lines 120-155) repeat the
  same three steps statement by statement; each step is written once here.
\<close>

definition example_url :: pystr where
  "example_url =
     py ''https://note-com.fastmcp.app/mcp?email=foo@gmail.com&password=YOUR_PASSWORD''"

definition missing_email :: pystr where
  "missing_email =
     py ''Missing 'email' query parameter. https://note-com.fastmcp.app/mcp?email=foo@gmail.com&password=YOUR_PASSWORD''"

definition missing_password :: pystr where
  "missing_password =
     py ''Missing 'password' query parameter. https://note-com.fastmcp.app/mcp?email=foo@gmail.com&password=YOUR_PASSWORD''"

text \<open>
  Lines 36-42 and 120-126. \<open>not email\<close> holds for \<open>None\<close> and for the empty string.
  \<open>get_http_request()\<close> returns the active request, which is truthy, so
  \<open>save_note_draft\<close>'s \<open>... if req else None\<close> reads the parameter as
  \<open>post_note_article\<close> does.
\<close>

definition get_credentials :: "world \<Rightarrow> error + pystr \<times> pystr" where
  "get_credentials w =
     (case query_params w (py ''email'') of
        None \<Rightarrow> Inl (ValueError missing_email)
      | Some email \<Rightarrow>
          if email = [] then Inl (ValueError missing_email)
          else
            (case query_params w (py ''password'') of
               None \<Rightarrow> Inl (ValueError missing_password)
             | Some password \<Rightarrow>
                 if password = [] then Inl (ValueError missing_password)
                 else Inr (email, password)))"

text \<open>The message of line 60 and 144, as code points.\<close>

definition no_session_message :: pystr where
  "no_session_message =
     [12525, 12464, 12452, 12531, 25104, 21151, 24460, 12395, 32, 95, 110, 111, 116, 101,
      95, 115, 101, 115, 115, 105, 111, 110, 95, 118, 53, 32, 12364, 35211, 12388, 12363,
      12426, 12414, 12379, 12435, 12290]"

definition login_request :: "pystr \<Rightarrow> pystr \<Rightarrow> request" where
  "login_request email password =
     \<lparr>req_method = POST, req_url = sign_in_url, req_params = [],
      req_headers = default_headers,
      req_json = JObj [(py ''login'', JStr email), (py ''password'', JStr password)],
      req_cookies = []\<rparr>"

text \<open>
  Lines 53-62 and 136-145: a fresh client, the login, the two cookies, each read before
  the session cookie is tested, and the headers for the later requests.
\<close>

definition sign_in ::
  "world \<Rightarrow> pystr \<Rightarrow> pystr \<Rightarrow> (error + (pystr \<times> pystr) list) \<times> client" where
  "sign_in w email password =
     (case send w \<lparr>jar = [], sent = []\<rparr> POST sign_in_url [] []
             (JObj [(py ''login'', JStr email), (py ''password'', JStr password)]) of
        (Inl e, c) \<Rightarrow> (Inl e, c)
      | (Inr resp, c) \<Rightarrow>
          (case raise_for_status resp of
             Inl e \<Rightarrow> (Inl e, c)
           | Inr _ \<Rightarrow>
               (case cookies_get (jar c) (py ''_note_session_v5'') of
                  Inl e \<Rightarrow> (Inl e, c)
                | Inr session_cookie \<Rightarrow>
                    (case cookies_get (jar c) (py ''XSRF-TOKEN'') of
                       Inl e \<Rightarrow> (Inl e, c)
                     | Inr xsrf_cookie \<Rightarrow>
                         if \<not> truthy_opt session_cookie
                         then (Inl (RuntimeError no_session_message), c)
                         else (Inr (case xsrf_cookie of
                                      None \<Rightarrow> []
                                    | Some x \<Rightarrow>
                                        if x \<noteq> [] then [(py ''X-XSRF-TOKEN'', x)] else []),
                               c)))))"

text \<open>
  Lines 64-67 and 148-155: create the note and read its id and key. Both handlers
  read \<open>["data"]\<close>, then \<open>["id"]\<close>, then \<open>["key"]\<close>.
\<close>

definition created_note :: "response \<Rightarrow> error + json \<times> json" where
  "created_note resp =
     sum_bind (raise_for_status resp) (\<lambda>_.
     sum_bind (response_json resp) (\<lambda>j.
     sum_bind (getitem j (py ''data'')) (\<lambda>note.
     sum_bind (getitem note (py ''id'')) (\<lambda>note_id.
     sum_bind (getitem note (py ''key'')) (\<lambda>note_key.
     Inr (note_id, note_key))))))"

definition create_text_note ::
  "world \<Rightarrow> client \<Rightarrow> (pystr \<times> pystr) list \<Rightarrow> (error + json \<times> json) \<times> client" where
  "create_text_note w c xsrf_headers =
     (case send w c POST text_notes_url [] (xsrf_headers @ [content_type_json])
             (JObj [(py ''template_key'', JNull)]) of
        (Inl e, c') \<Rightarrow> (Inl e, c')
      | (Inr resp, c') \<Rightarrow> (created_note resp, c'))"

text \<open>The request of line 64 and 148, made with the given jar and anti-forgery headers.\<close>

definition create_request :: "cookiejar \<Rightarrow> (pystr \<times> pystr) list \<Rightarrow> request" where
  "create_request cookies xsrf_headers =
     \<lparr>req_method = POST, req_url = text_notes_url, req_params = [],
      req_headers = default_headers @ xsrf_headers @ [content_type_json],
      req_json = JObj [(py ''template_key'', JNull)], req_cookies = cookies\<rparr>"

section \<open>\<open>post_note_article\<close>\<close>

text \<open>Lines 69-95, with \<open>slug_key\<close> for \<open>str(note_key)\<close>.\<close>

definition put_body :: "pystr \<Rightarrow> pystr \<Rightarrow> pystr list option \<Rightarrow> pystr \<Rightarrow> json" where
  "put_body title body hashtags slug_key =
     JObj
      [(py ''author_ids'', JArr []),
       (py ''body_length'', JInt (int (length body))),
       (py ''disable_comment'', JBool False),
       (py ''exclude_from_creator_top'', JBool False),
       (py ''exclude_ai_learning_reward'', JBool False),
       (py ''free_body'', JStr body),
       (py ''hashtags'', JArr (map JStr (case hashtags of None \<Rightarrow> [] | Some hs \<Rightarrow> hs))),
       (py ''image_keys'', JArr []),
       (py ''index'', JBool False),
       (py ''is_refund'', JBool False),
       (py ''limited'', JBool False),
       (py ''magazine_ids'', JArr []),
       (py ''magazine_keys'', JArr []),
       (py ''name'', JStr title),
       (py ''pay_body'', JStr []),
       (py ''price'', JInt 0),
       (py ''send_notifications_flag'', JBool True),
       (py ''separator'', JNull),
       (py ''slug'', JStr (py ''slug-'' @ slug_key)),
       (py ''status'', JStr (py ''published'')),
       (py ''circle_permissions'', JArr []),
       (py ''discount_campaigns'', JArr []),
       (py ''lead_form'',
        JObj [(py ''is_active'', JBool False), (py ''consent_url'', JStr [])]),
       (py ''line_add_friend'',
        JObj [(py ''is_active'', JBool False), (py ''keyword'', JStr []),
              (py ''add_friend_url'', JStr [])]),
       (py ''line_add_friend_access_token'', JStr [])]"

text \<open>
  The handler returns its result and the requests it issued, in order. Line 103 returns
  the value found in the response; the annotation \<open>-> None\<close> of line 24 changes nothing
  at run time.
\<close>

definition post_note_article ::
  "world \<Rightarrow> pystr \<Rightarrow> pystr \<Rightarrow> pystr list option \<Rightarrow> (error + json) \<times> request list" where
  "post_note_article w title body hashtags =
     (case get_credentials w of
        Inl e \<Rightarrow> (Inl e, [])
      | Inr (email, password) \<Rightarrow>
     (case sign_in w email password of
        (Inl e, c) \<Rightarrow> (Inl e, sent c)
      | (Inr xsrf_headers, c) \<Rightarrow>
     (case create_text_note w c xsrf_headers of
        (Inl e, c) \<Rightarrow> (Inl e, sent c)
      | (Inr (note_id, note_key), c) \<Rightarrow>
     (case send w c PUT (text_notes_url @ py ''/'' @ py_str w note_id) []
             (xsrf_headers @ [content_type_json])
             (put_body title body hashtags (py_str w note_key)) of
        (Inl e, c) \<Rightarrow> (Inl e, sent c)
      | (Inr put_resp, c) \<Rightarrow>
          (sum_bind (response_json put_resp) (\<lambda>j.
           sum_bind (getitem j (py ''data'')) (\<lambda>d.
           getitem d (py ''note_url''))),
           sent c)))))"

section \<open>\<open>save_note_draft\<close>\<close>

text \<open>Lines 159-160: \<open>body or ""\<close> is \<open>body\<close> for a string.\<close>

definition text_only :: "world \<Rightarrow> pystr \<Rightarrow> error + pystr" where
  "text_only w body = unescape (int_max_str_digits w) (html5_table w) (strip_tags body)"

text \<open>Lines 162-169.\<close>

definition draft_payload :: "pystr \<Rightarrow> pystr \<Rightarrow> int \<Rightarrow> json" where
  "draft_payload title body body_length =
     JObj
      [(py ''body'', JStr body),
       (py ''body_length'', JInt body_length),
       (py ''index'', JBool False),
       (py ''is_lead_form'', JBool False),
       (py ''name'', JStr title)]"

text \<open>
  Lines 180-185: \<open>data\<close> stays \<open>{}\<close> unless the content type starts with
  \<open>application/json\<close> and \<open>save_resp.json().get("data", {})\<close> raises nothing.
\<close>

definition draft_data :: "response \<Rightarrow> json" where
  "draft_data resp =
     (if prefix (py ''application/json'')
           (case resp_content_type resp of None \<Rightarrow> [] | Some ct \<Rightarrow> ct)
      then (case sum_bind (response_json resp) (\<lambda>j. get_method j (py ''data'') (JObj [])) of
              Inl e \<Rightarrow> JObj []
            | Inr d \<Rightarrow> d)
      else JObj [])"

text \<open>Line 186, outside the \<open>try\<close>.\<close>

definition draft_url :: "world \<Rightarrow> json \<Rightarrow> json \<Rightarrow> error + json" where
  "draft_url w data note_key =
     sum_bind (get_method data (py ''note_url'') JNull) (\<lambda>u.
     Inr (if truthy u then u
          else JStr (py ''https://note.com/notes/'' @ py_str w note_key @ py ''?draft=1'')))"

definition save_note_draft ::
  "world \<Rightarrow> pystr \<Rightarrow> pystr \<Rightarrow> pystr list option \<Rightarrow> (error + json) \<times> request list" where
  "save_note_draft w title body hashtags =
     (case get_credentials w of
        Inl e \<Rightarrow> (Inl e, [])
      | Inr (email, password) \<Rightarrow>
     (case sign_in w email password of
        (Inl e, c) \<Rightarrow> (Inl e, sent c)
      | (Inr xsrf_headers, c) \<Rightarrow>
     (case create_text_note w c xsrf_headers of
        (Inl e, c) \<Rightarrow> (Inl e, sent c)
      | (Inr (note_id, note_key), c) \<Rightarrow>
     (case text_only w body of
        Inl e \<Rightarrow> (Inl e, sent c)
      | Inr text \<Rightarrow>
     (case send w c POST draft_save_url
             [(py ''id'', note_id), (py ''is_temp_saved'', JStr (py ''true''))]
             (xsrf_headers @ [content_type_json])
             (draft_payload title body (int (length text))) of
        (Inl e, c) \<Rightarrow> (Inl e, sent c)
      | (Inr save_resp, c) \<Rightarrow>
          (sum_bind (raise_for_status save_resp) (\<lambda>_.
           draft_url w (draft_data save_resp) note_key),
           sent c))))))"

section \<open>Example worlds\<close>

text \<open>A platform that answers the n-th request of an invocation with the n-th entry of a script.\<close>

definition scripted ::
  "response option list \<Rightarrow> request list \<Rightarrow> request \<Rightarrow> response option" where
  "scripted script hist r = (if length hist < length script then script ! length hist else None)"

text \<open>
  A \<open>repr\<close> that is Python's on \<open>None\<close>, the booleans and the integers up to 99, the
  only values the examples hand to it.
\<close>

definition example_repr :: "json \<Rightarrow> pystr" where
  "example_repr v =
     (case v of
        JNull \<Rightarrow> py ''None''
      | JBool b \<Rightarrow> (if b then py ''True'' else py ''False'')
      | JInt i \<Rightarrow>
          (if 0 \<le> i \<and> i < 10 then [48 + nat i]
           else if 10 \<le> i \<and> i < 100 then [48 + nat i div 10, 48 + nat i mod 10]
           else py ''...'')
      | _ \<Rightarrow> py ''...'')"

text \<open>Some of the entries of \<open>html.entities.html5\<close>.\<close>

definition example_html5 :: "pystr \<rightharpoonup> pystr" where
  "example_html5 =
     [py ''nbsp;'' \<mapsto> [160], py ''nbsp'' \<mapsto> [160],
      py ''amp;'' \<mapsto> [38], py ''amp'' \<mapsto> [38],
      py ''lt;'' \<mapsto> [60], py ''lt'' \<mapsto> [60],
      py ''gt;'' \<mapsto> [62], py ''gt'' \<mapsto> [62],
      py ''not;'' \<mapsto> [172], py ''not'' \<mapsto> [172]]"

text \<open>A world with these entries and the default digit limit.\<close>

definition example_world :: "(pystr \<rightharpoonup> pystr) \<Rightarrow> response option list \<Rightarrow> world" where
  "example_world query script =
     \<lparr>query_params = query,
      server = scripted script,
      py_repr = example_repr,
      html5_table = example_html5,
      int_max_str_digits = 4300\<rparr>"

definition example_query :: "pystr \<rightharpoonup> pystr" where
  "example_query = [py ''email'' \<mapsto> py ''foo@gmail.com'', py ''password'' \<mapsto> py ''secret'']"

text \<open>A cookie for the whole site, and one for a path under it.\<close>

definition site_cookie :: "pystr \<times> pystr \<Rightarrow> cookie" where
  "site_cookie nv =
     \<lparr>ck_name = fst nv, ck_value = Some (snd nv), ck_domain = py ''.note.com'', ck_path = py ''/''\<rparr>"

definition api_cookie :: "pystr \<times> pystr \<Rightarrow> cookie" where
  "api_cookie nv =
     \<lparr>ck_name = fst nv, ck_value = Some (snd nv), ck_domain = py ''.note.com'',
      ck_path = py ''/api''\<rparr>"

text \<open>A JSON response that expires no cookie and sets the given ones for the whole site.\<close>

definition json_response :: "nat \<Rightarrow> (pystr \<times> pystr) list \<Rightarrow> json \<Rightarrow> response" where
  "json_response st cs j =
     \<lparr>resp_status = st, resp_expired = [], resp_cookies = map site_cookie cs,
      resp_content_type = Some (py ''application/json; charset=utf-8''),
      resp_json = Some j\<rparr>"

definition login_ok :: response where
  "login_ok =
     json_response 200
       [(py ''_note_session_v5'', py ''sess''), (py ''XSRF-TOKEN'', py ''tok'')]
       (JObj [(py ''data'', JObj [(py ''id'', JInt 7)])])"

text \<open>The jar of a fresh client after \<open>login_ok\<close>.\<close>

definition login_jar :: cookiejar where
  "login_jar =
     [(py ''.note.com'',
       [(py ''/'',
         [(py ''_note_session_v5'', Some (py ''sess'')), (py ''XSRF-TOKEN'', Some (py ''tok''))])])]"

definition created_ok :: response where
  "created_ok =
     json_response 201 []
       (JObj [(py ''data'', JObj [(py ''id'', JInt 42), (py ''key'', JStr (py ''abcd1234''))])])"

definition url_response :: "nat \<Rightarrow> response" where
  "url_response st =
     json_response st []
       (JObj [(py ''data'', JObj [(py ''note_url'', JStr (py ''https://note.com/foo/n/n1''))])])"

definition login_failed :: response where
  "login_failed = json_response 401 [] (JObj [(py ''error'', JStr (py ''unauthorized''))])"

definition login_no_session :: response where
  "login_no_session = json_response 200 [(py ''XSRF-TOKEN'', py ''tok'')] (JObj [])"

definition login_no_xsrf :: response where
  "login_no_xsrf = json_response 200 [(py ''_note_session_v5'', py ''sess'')] (JObj [])"

definition put_rejected :: response where
  "put_rejected = json_response 422 [] (JObj [(py ''error'', JStr (py ''invalid''))])"

definition create_failed :: response where
  "create_failed = json_response 500 [] (JObj [])"

definition draft_data_null :: response where
  "draft_data_null = json_response 200 [] (JObj [(py ''data'', JNull)])"

definition draft_no_data :: response where
  "draft_no_data = json_response 200 [] (JObj [])"

text \<open>
  Login answers with two cookies of one name under different paths: two anti-forgery
  cookies and no session cookie, and two session cookies and no anti-forgery cookie.
\<close>

definition login_two_xsrf :: response where
  "login_two_xsrf =
     \<lparr>resp_status = 200, resp_expired = [],
      resp_cookies = [site_cookie (py ''XSRF-TOKEN'', py ''tok''),
                      api_cookie (py ''XSRF-TOKEN'', py ''tok2'')],
      resp_content_type = Some (py ''application/json; charset=utf-8''),
      resp_json = Some (JObj [])\<rparr>"

definition login_two_sessions :: response where
  "login_two_sessions =
     \<lparr>resp_status = 200, resp_expired = [],
      resp_cookies = [site_cookie (py ''_note_session_v5'', py ''sess''),
                      api_cookie (py ''_note_session_v5'', py ''sess2'')],
      resp_content_type = Some (py ''application/json; charset=utf-8''),
      resp_json = Some (JObj [])\<rparr>"


section \<open>Facts about the steps\<close>

lemmas handler_defs =
  post_note_article_def save_note_draft_def get_credentials_def sign_in_def
  create_text_note_def created_note_def send_def build_request_def raise_for_status_def
  response_json_def py_str_def draft_url_def draft_data_def login_request_def
  create_request_def text_notes_url_def cookies_get_def jar_cookies_def extract_cookies_def
  set_cookie_def

lemmas example_defs =
  example_world_def example_query_def scripted_def example_repr_def json_response_def
  login_ok_def created_ok_def url_response_def login_failed_def login_no_session_def
  login_no_xsrf_def put_rejected_def create_failed_def draft_data_null_def draft_no_data_def
  site_cookie_def api_cookie_def login_jar_def login_two_xsrf_def login_two_sessions_def
  example_html5_def

lemmas unescape_defs =
  text_only_def unescape_def match_charref_def charref_dec_def charref_hex_def
  charref_named_def replace_charref_def name_char_def is_digit_def

lemma send_eq:
  "send w c m u ps hs j =
     (case server w (sent c) (build_request c m u ps hs j) of
        None \<Rightarrow>
          (Inl TransportError,
           \<lparr>jar = jar c, sent = sent c @ [build_request c m u ps hs j]\<rparr>)
      | Some resp \<Rightarrow>
          (Inr resp,
           \<lparr>jar = extract_cookies (jar c) resp,
            sent = sent c @ [build_request c m u ps hs j]\<rparr>))"
  by (simp add: send_def Let_def)

lemma sign_in_sent:
  "sign_in w email password = (r, c) \<Longrightarrow> sent c = [login_request email password]"
  by (auto simp: sign_in_def send_def build_request_def login_request_def Let_def
      split: option.splits sum.splits if_splits)

lemma create_text_note_sent:
  "create_text_note w c xs = (r, c') \<Longrightarrow> sent c' = sent c @ [create_request (jar c) xs]"
  by (auto simp: create_text_note_def send_def build_request_def create_request_def Let_def
      split: option.splits sum.splits if_splits)

text \<open>What the login step returns, by the platform's answer to the login request.\<close>

lemma sign_in_no_reply:
  "server w [] (login_request email password) = None \<Longrightarrow>
   sign_in w email password
     = (Inl TransportError, \<lparr>jar = [], sent = [login_request email password]\<rparr>)"
  by (simp add: sign_in_def send_def build_request_def login_request_def)

lemma sign_in_reply:
  "server w [] (login_request email password) = Some resp \<Longrightarrow>
   sign_in w email password
     = (if \<not> (200 \<le> resp_status resp \<and> resp_status resp \<le> 299)
        then Inl (HTTPStatusError (resp_status resp))
        else
          (case cookies_get (extract_cookies [] resp) (py ''_note_session_v5'') of
             Inl e \<Rightarrow> Inl e
           | Inr session_cookie \<Rightarrow>
               (case cookies_get (extract_cookies [] resp) (py ''XSRF-TOKEN'') of
                  Inl e \<Rightarrow> Inl e
                | Inr xsrf_cookie \<Rightarrow>
                    if \<not> truthy_opt session_cookie
                    then Inl (RuntimeError no_session_message)
                    else Inr (case xsrf_cookie of
                                None \<Rightarrow> []
                              | Some x \<Rightarrow> if x \<noteq> [] then [(py ''X-XSRF-TOKEN'', x)] else []))),
        \<lparr>jar = extract_cookies [] resp, sent = [login_request email password]\<rparr>)"
  by (simp add: sign_in_def send_def build_request_def login_request_def raise_for_status_def
      Let_def split: sum.splits)

text \<open>
  Reading a name that no cookie of the jar has gives \<open>None\<close>; a read raises only when
  two cookies of the jar have the name.
\<close>

lemma get_loop_absent:
  "name \<notin> ck_name ` set cs \<Longrightarrow> get_loop name v cs = Inr v"
  by (induction cs arbitrary: v) auto

lemma cookies_get_absent:
  "name \<notin> ck_name ` set (jar_cookies j) \<Longrightarrow> cookies_get j name = Inr None"
  by (simp add: cookies_get_def get_loop_absent)

lemma get_loop_conflict:
  "get_loop name v cs = Inl e \<Longrightarrow>
   e = CookieConflict \<and>
   (if v = None then 2 else 1) \<le> length (filter (\<lambda>c. ck_name c = name) cs)"
proof (induction cs arbitrary: v)
  case Nil
  then show ?case by simp
next
  case (Cons c cs)
  show ?case
  proof (cases "ck_name c = name")
    case False
    with Cons show ?thesis by simp
  next
    case True
    show ?thesis
    proof (cases v)
      case None
      with True Cons.prems have "get_loop name (ck_value c) cs = Inl e" by simp
      from Cons.IH [OF this] True None show ?thesis by (auto split: if_splits)
    next
      case (Some x)
      with True Cons.prems show ?thesis by simp
    qed
  qed
qed

lemma cookies_get_conflict:
  "cookies_get j name = Inl e \<Longrightarrow>
   e = CookieConflict \<and> 2 \<le> length (filter (\<lambda>c. ck_name c = name) (jar_cookies j))"
  using get_loop_conflict [of name None "jar_cookies j" e] by (simp add: cookies_get_def)

lemma put_body_length:
  "getitem (put_body title body hashtags slug) (py ''body_length'') = Inr (JInt (int (length body)))"
  by (simp add: put_body_def py_def)



text \<open>
  An invocation that issues a third request has passed the first three steps, and its
  result is read off the answer to that request.
\<close>

lemma post_third_request:
  assumes "post_note_article w title body hashtags = (res, reqs)"
    and "2 < length reqs"
  shows "\<exists>email password xs c1 note_id note_key c2 r3.
           get_credentials w = Inr (email, password) \<and>
           sign_in w email password = (Inr xs, c1) \<and>
           create_text_note w c1 xs = (Inr (note_id, note_key), c2) \<and>
           r3 = build_request c2 PUT (text_notes_url @ py ''/'' @ py_str w note_id) []
                  (xs @ [content_type_json]) (put_body title body hashtags (py_str w note_key)) \<and>
           reqs = [login_request email password, create_request (jar c1) xs, r3] \<and>
           res = (case server w [login_request email password, create_request (jar c1) xs] r3 of
                    None \<Rightarrow> Inl TransportError
                  | Some put_resp \<Rightarrow>
                      sum_bind (response_json put_resp) (\<lambda>j.
                      sum_bind (getitem j (py ''data'')) (\<lambda>d.
                      getitem d (py ''note_url''))))"
proof (cases "get_credentials w")
  case (Inl e)
  with assms(1) have "reqs = []" by (auto simp: post_note_article_def)
  with assms(2) show ?thesis by simp
next
  case (Inr cred)
  obtain email password where cred: "cred = (email, password)" by (cases cred)
  obtain r1 c1 where s1: "sign_in w email password = (r1, c1)"
    by (cases "sign_in w email password")
  then have t1: "sent c1 = [login_request email password]" by (rule sign_in_sent)
  show ?thesis
  proof (cases r1)
    case (Inl e)
    with assms(1) Inr cred s1 have "reqs = sent c1" by (auto simp: post_note_article_def)
    with t1 assms(2) show ?thesis by simp
  next
    case xs: (Inr xs)
    obtain r2 c2 where s2: "create_text_note w c1 xs = (r2, c2)"
      by (cases "create_text_note w c1 xs")
    then have t2: "sent c2 = sent c1 @ [create_request (jar c1) xs]"
      by (rule create_text_note_sent)
    show ?thesis
    proof (cases r2)
      case (Inl e)
      with assms(1) Inr cred s1 xs s2 have "reqs = sent c2"
        by (auto simp: post_note_article_def)
      with t1 t2 assms(2) show ?thesis by simp
    next
      case created: (Inr nk)
      obtain note_id note_key where nk: "nk = (note_id, note_key)" by (cases nk)
      show ?thesis
        using assms(1) Inr cred s1 xs s2 created nk t1 t2
        by (auto simp: post_note_article_def send_eq split: option.splits)
    qed
  qed
qed


lemma post_success_length:
  assumes "post_note_article w title body hashtags = (Inr v, reqs)"
  shows "2 < length reqs"
  using assms
  by (auto simp: post_note_article_def send_eq
      split: sum.splits prod.splits option.splits dest!: sign_in_sent create_text_note_sent)


text \<open>The jar of a fresh client holds no name that the login response does not set.\<close>

lemma set_put: "set (put k v kvs) \<subseteq> insert (k, v) (set kvs)"
  by (induction k v kvs rule: put.induct) auto

lemma jar_names:
  "ck_name ` set (jar_cookies j)
     = {n. \<exists>d c2 p c3 v. (d, c2) \<in> set j \<and> (p, c3) \<in> set c2 \<and> (n, v) \<in> set c3}"
proof (intro set_eqI iffI)
  fix n assume "n \<in> ck_name ` set (jar_cookies j)"
  then obtain c where c: "c \<in> set (jar_cookies j)" and n: "n = ck_name c" by blast
  from c obtain d c2 p c3 m v where
    mem: "(d, c2) \<in> set j" "(p, c3) \<in> set c2" "(m, v) \<in> set c3"
    and "c = \<lparr>ck_name = m, ck_value = v, ck_domain = d, ck_path = p\<rparr>"
    by (auto simp: jar_cookies_def)
  with n have "n = m" by simp
  with mem show "n \<in> {n. \<exists>d c2 p c3 v. (d, c2) \<in> set j \<and> (p, c3) \<in> set c2 \<and> (n, v) \<in> set c3}"
    by blast
next
  fix n assume "n \<in> {n. \<exists>d c2 p c3 v. (d, c2) \<in> set j \<and> (p, c3) \<in> set c2 \<and> (n, v) \<in> set c3}"
  then obtain d c2 p c3 v where "(d, c2) \<in> set j" "(p, c3) \<in> set c2" "(n, v) \<in> set c3"
    by blast
  then have "\<lparr>ck_name = n, ck_value = v, ck_domain = d, ck_path = p\<rparr> \<in> set (jar_cookies j)"
    by (force simp: jar_cookies_def)
  then show "n \<in> ck_name ` set (jar_cookies j)"
    by (metis cookie.select_convs(1) image_eqI)
qed

lemma set_cookie_names:
  "ck_name ` set (jar_cookies (set_cookie j c))
     \<subseteq> insert (ck_name c) (ck_name ` set (jar_cookies j))"
proof
  fix n assume "n \<in> ck_name ` set (jar_cookies (set_cookie j c))"
  then obtain d c2 p c3 v where
    d: "(d, c2) \<in> set (set_cookie j c)" and p: "(p, c3) \<in> set c2" and n: "(n, v) \<in> set c3"
    unfolding jar_names by blast
  let ?c2 = "case map_of j (ck_domain c) of None \<Rightarrow> [] | Some paths \<Rightarrow> paths"
  let ?c3 = "case map_of ?c2 (ck_path c) of None \<Rightarrow> [] | Some names \<Rightarrow> names"
  have old2: "(q, x) \<in> set ?c2 \<Longrightarrow> (ck_domain c, ?c2) \<in> set j" for q x
    by (cases "map_of j (ck_domain c)") (auto dest: map_of_SomeD)
  have old3: "(m, x) \<in> set ?c3 \<Longrightarrow> (ck_path c, ?c3) \<in> set ?c2" for m x
    by (cases "map_of ?c2 (ck_path c)") (auto dest: map_of_SomeD)
  from d have "(d, c2) = (ck_domain c, put (ck_path c) (put (ck_name c) (ck_value c) ?c3) ?c2)
      \<or> (d, c2) \<in> set j"
    using set_put [of "ck_domain c" _ j] by (auto simp: set_cookie_def Let_def)
  then show "n \<in> insert (ck_name c) (ck_name ` set (jar_cookies j))"
  proof
    assume "(d, c2) \<in> set j"
    with p n show ?thesis unfolding jar_names by blast
  next
    assume new: "(d, c2) = (ck_domain c, put (ck_path c) (put (ck_name c) (ck_value c) ?c3) ?c2)"
    with p have "(p, c3) = (ck_path c, put (ck_name c) (ck_value c) ?c3) \<or> (p, c3) \<in> set ?c2"
      using set_put [of "ck_path c" _ ?c2] by auto
    then show ?thesis
    proof
      assume "(p, c3) \<in> set ?c2"
      with old2 n show ?thesis unfolding jar_names by blast
    next
      assume "(p, c3) = (ck_path c, put (ck_name c) (ck_value c) ?c3)"
      with n have "(n, v) = (ck_name c, ck_value c) \<or> (n, v) \<in> set ?c3"
        using set_put [of "ck_name c" _ ?c3] by auto
      then show ?thesis
      proof
        assume "(n, v) = (ck_name c, ck_value c)"
        then show ?thesis by simp
      next
        assume in3: "(n, v) \<in> set ?c3"
        from old3 [OF in3] have in2: "(ck_path c, ?c3) \<in> set ?c2" .
        from old2 [OF in2] in2 in3 show ?thesis unfolding jar_names by blast
      qed
    qed
  qed
qed

lemma foldl_set_cookie_names:
  "ck_name ` set (jar_cookies (foldl set_cookie j cs))
     \<subseteq> ck_name ` set (jar_cookies j) \<union> ck_name ` set cs"
proof (induction cs arbitrary: j)
  case Nil
  then show ?case by simp
next
  case (Cons c cs)
  from Cons [of "set_cookie j c"] set_cookie_names [of j c] show ?case by auto
qed

lemma foldl_clear_empty: "foldl clear_cookie [] ks = []"
  by (induction ks) auto

lemma fresh_jar_names:
  "ck_name ` set (jar_cookies (extract_cookies [] resp)) \<subseteq> ck_name ` set (resp_cookies resp)"
  using foldl_set_cookie_names [of "[]" "resp_cookies resp"]
  by (simp add: extract_cookies_def foldl_clear_empty jar_cookies_def)

lemma fresh_jar_absent:
  "name \<notin> ck_name ` set (resp_cookies resp) \<Longrightarrow>
   cookies_get (extract_cookies [] resp) name = Inr None"
  using fresh_jar_names [of resp] by (intro cookies_get_absent) blast

section \<open>Facts about the visible text\<close>

























section \<open>The claims\<close>

text \<open>
  C7. For both operations: if the \<open>email\<close> or the \<open>password\<close> query parameter is absent
  from the transport-level request, the operation fails with a \<open>ValueError\<close> whose message
  is \<open>Missing '<name>' query parameter.\<close> followed by the example URL, where \<open><name>\<close> is
  a parameter that is missing (absent or empty; \<open>email\<close> whenever \<open>email\<close> is absent), and
  no HTTP request is issued.
\<close>

theorem missing_credential_fails_before_any_request:
  assumes "query_params w (py ''email'') = None \<or> query_params w (py ''password'') = None"
  shows "\<exists>name.
           (name = py ''email'' \<or>
            name = py ''password'' \<and> query_params w (py ''email'') \<noteq> None) \<and>
           \<not> truthy_opt (query_params w name) \<and>
           post_note_article w title body hashtags
             = (Inl (ValueError
                  (py ''Missing '' @ [39] @ name @ [39] @ py '' query parameter. '' @ example_url)),
                []) \<and>
           save_note_draft w title body hashtags
             = (Inl (ValueError
                  (py ''Missing '' @ [39] @ name @ [39] @ py '' query parameter. '' @ example_url)),
                [])"
proof (cases "truthy_opt (query_params w (py ''email''))")
  case False
  have "missing_email
          = py ''Missing '' @ [39] @ py ''email'' @ [39] @ py '' query parameter. '' @ example_url"
    by (simp add: missing_email_def example_url_def py_def)
  moreover from False have "get_credentials w = Inl (ValueError missing_email)"
    by (cases "query_params w (py ''email'')") (simp_all add: get_credentials_def)
  ultimately show ?thesis
    using False by (intro exI [of _ "py ''email''"]) (simp add: post_note_article_def save_note_draft_def)
next
  case True
  with assms have absent: "query_params w (py ''password'') = None"
    by (cases "query_params w (py ''email'')") auto
  have "missing_password
          = py ''Missing '' @ [39] @ py ''password'' @ [39] @ py '' query parameter. '' @ example_url"
    by (simp add: missing_password_def example_url_def py_def)
  moreover from True absent have "get_credentials w = Inl (ValueError missing_password)"
    by (cases "query_params w (py ''email'')") (simp_all add: get_credentials_def)
  ultimately show ?thesis
    using True absent
    by (intro exI [of _ "py ''password''"])
       (auto simp: post_note_article_def save_note_draft_def)
qed

text \<open>
  The invocation carries an \<open>email\<close> but no \<open>password\<close>: the message names \<open>password\<close>.
\<close>

theorem missing_credential_fails_before_any_request_witness:
  "(query_params (example_world [py ''email'' \<mapsto> py ''foo@gmail.com''] []) (py ''email'') = None \<or>
    query_params (example_world [py ''email'' \<mapsto> py ''foo@gmail.com''] []) (py ''password'') = None) \<and>
   (\<exists>name.
      (name = py ''email'' \<or>
       name = py ''password'' \<and>
       query_params (example_world [py ''email'' \<mapsto> py ''foo@gmail.com''] []) (py ''email'') \<noteq> None) \<and>
      \<not> truthy_opt (query_params (example_world [py ''email'' \<mapsto> py ''foo@gmail.com''] []) name) \<and>
      post_note_article (example_world [py ''email'' \<mapsto> py ''foo@gmail.com''] [])
          (py ''Title'') (py ''<p>Hi</p>'') None
        = (Inl (ValueError
             (py ''Missing '' @ [39] @ name @ [39] @ py '' query parameter. '' @ example_url)),
           []) \<and>
      save_note_draft (example_world [py ''email'' \<mapsto> py ''foo@gmail.com''] [])
          (py ''Title'') (py ''<p>Hi</p>'') None
        = (Inl (ValueError
             (py ''Missing '' @ [39] @ name @ [39] @ py '' query parameter. '' @ example_url)),
           []))"
proof -
  let ?w = "example_world [py ''email'' \<mapsto> py ''foo@gmail.com''] []"
  have h: "query_params ?w (py ''email'') = None \<or> query_params ?w (py ''password'') = None"
    by (simp add: example_world_def py_def)
  from missing_credential_fails_before_any_request [OF h] h show ?thesis
    by blast
qed

text \<open>
  C8. Two \<open>save_note_draft\<close> invocations that differ only in the \<open>hashtags\<close> argument have
  the same result and issue the same requests, the draft payload among them.
\<close>

theorem draft_ignores_hashtags:
  "save_note_draft w title body hashtags = save_note_draft w title body hashtags'"
  by (simp add: save_note_draft_def)

text \<open>
  C5. For both operations: if the platform answers the login request with a status outside
  200..299, the operation fails with that HTTP status error and the login request is the
  only request issued. More generally a step that fails ends the invocation with that
  step's failure: a failed credential check issues no request, a failed login issues the
  login request only, and a failed note creation issues the login and creation requests
  only, never the third request.
\<close>

theorem failed_step_ends_the_sequence:
  "(get_credentials w = Inr (email, password) \<and>
    server w [] (login_request email password) = Some resp \<and>
    \<not> (200 \<le> resp_status resp \<and> resp_status resp \<le> 299) \<longrightarrow>
      post_note_article w title body hashtags
        = (Inl (HTTPStatusError (resp_status resp)), [login_request email password]) \<and>
      save_note_draft w title body hashtags
        = (Inl (HTTPStatusError (resp_status resp)), [login_request email password]))
   \<and> (get_credentials w = Inl e \<longrightarrow>
      post_note_article w title body hashtags = (Inl e, []) \<and>
      save_note_draft w title body hashtags = (Inl e, []))
   \<and> (get_credentials w = Inr (email, password) \<and> sign_in w email password = (Inl e, c) \<longrightarrow>
      post_note_article w title body hashtags = (Inl e, [login_request email password]) \<and>
      save_note_draft w title body hashtags = (Inl e, [login_request email password]))
   \<and> (get_credentials w = Inr (email, password) \<and> sign_in w email password = (Inr xs, c) \<and>
      create_text_note w c xs = (Inl e, c') \<longrightarrow>
      post_note_article w title body hashtags
        = (Inl e, [login_request email password, create_request (jar c) xs]) \<and>
      save_note_draft w title body hashtags
        = (Inl e, [login_request email password, create_request (jar c) xs]))"
proof (intro conjI impI)
  assume a: "get_credentials w = Inr (email, password) \<and>
    server w [] (login_request email password) = Some resp \<and>
    \<not> (200 \<le> resp_status resp \<and> resp_status resp \<le> 299)"
  then show "post_note_article w title body hashtags
        = (Inl (HTTPStatusError (resp_status resp)), [login_request email password])"
    by (simp add: post_note_article_def sign_in_reply)
  from a show "save_note_draft w title body hashtags
        = (Inl (HTTPStatusError (resp_status resp)), [login_request email password])"
    by (simp add: save_note_draft_def sign_in_reply)
next
  assume "get_credentials w = Inl e"
  then show "post_note_article w title body hashtags = (Inl e, [])"
    and "save_note_draft w title body hashtags = (Inl e, [])"
    by (simp_all add: post_note_article_def save_note_draft_def)
next
  assume a: "get_credentials w = Inr (email, password) \<and> sign_in w email password = (Inl e, c)"
  then have "sent c = [login_request email password]"
    using sign_in_sent by blast
  with a show "post_note_article w title body hashtags = (Inl e, [login_request email password])"
    and "save_note_draft w title body hashtags = (Inl e, [login_request email password])"
    by (simp_all add: post_note_article_def save_note_draft_def)
next
  assume a: "get_credentials w = Inr (email, password) \<and> sign_in w email password = (Inr xs, c) \<and>
      create_text_note w c xs = (Inl e, c')"
  then have "sent c = [login_request email password]"
    using sign_in_sent by blast
  moreover from a have "sent c' = sent c @ [create_request (jar c) xs]"
    using create_text_note_sent by blast
  ultimately show "post_note_article w title body hashtags
        = (Inl e, [login_request email password, create_request (jar c) xs])"
    and "save_note_draft w title body hashtags
        = (Inl e, [login_request email password, create_request (jar c) xs])"
    using a by (simp_all add: post_note_article_def save_note_draft_def)
qed

text \<open>
  Three invocations: the login is answered with 401; no query parameter is given; the
  login succeeds and the creation is answered with 500.
\<close>

theorem failed_step_ends_the_sequence_witness:
  "get_credentials (example_world example_query [Some login_failed])
     = Inr (py ''foo@gmail.com'', py ''secret'') \<and>
   server (example_world example_query [Some login_failed]) []
       (login_request (py ''foo@gmail.com'') (py ''secret'')) = Some login_failed \<and>
   \<not> (200 \<le> resp_status login_failed \<and> resp_status login_failed \<le> 299) \<and>
   post_note_article (example_world example_query [Some login_failed])
       (py ''Title'') (py ''<p>Hi</p>'') None
     = (Inl (HTTPStatusError 401), [login_request (py ''foo@gmail.com'') (py ''secret'')]) \<and>
   save_note_draft (example_world example_query [Some login_failed])
       (py ''Title'') (py ''<p>Hi</p>'') None
     = (Inl (HTTPStatusError 401), [login_request (py ''foo@gmail.com'') (py ''secret'')]) \<and>
   get_credentials (example_world Map.empty []) = Inl (ValueError missing_email) \<and>
   post_note_article (example_world Map.empty []) (py ''Title'') (py ''<p>Hi</p>'') None
     = (Inl (ValueError missing_email), []) \<and>
   sign_in (example_world example_query [Some login_ok, Some create_failed])
       (py ''foo@gmail.com'') (py ''secret'')
     = (Inr [(py ''X-XSRF-TOKEN'', py ''tok'')],
        \<lparr>jar = login_jar,
         sent = [login_request (py ''foo@gmail.com'') (py ''secret'')]\<rparr>) \<and>
   fst (create_text_note (example_world example_query [Some login_ok, Some create_failed])
         \<lparr>jar = login_jar,
          sent = [login_request (py ''foo@gmail.com'') (py ''secret'')]\<rparr>
         [(py ''X-XSRF-TOKEN'', py ''tok'')])
     = Inl (HTTPStatusError 500) \<and>
   save_note_draft (example_world example_query [Some login_ok, Some create_failed])
       (py ''Title'') (py ''<p>Hi</p>'') None
     = (Inl (HTTPStatusError 500),
        [login_request (py ''foo@gmail.com'') (py ''secret''),
         create_request login_jar [(py ''X-XSRF-TOKEN'', py ''tok'')]])"
proof -
  let ?e = "py ''foo@gmail.com''" and ?p = "py ''secret''"
  let ?w1 = "example_world example_query [Some login_failed]"
  let ?w2 = "example_world Map.empty []"
  let ?w3 = "example_world example_query [Some login_ok, Some create_failed]"
  let ?c = "\<lparr>jar = login_jar, sent = [login_request ?e ?p]\<rparr>"
  let ?xs = "[(py ''X-XSRF-TOKEN'', py ''tok'')]"
  have cred1: "get_credentials ?w1 = Inr (?e, ?p)"
    by (simp add: get_credentials_def example_defs py_def)
  have srv1: "server ?w1 [] (login_request ?e ?p) = Some login_failed"
    by (simp add: example_defs)
  have st1: "\<not> (200 \<le> resp_status login_failed \<and> resp_status login_failed \<le> 299)"
    "resp_status login_failed = 401"
    by (simp_all add: example_defs)
  have cred2: "get_credentials ?w2 = Inl (ValueError missing_email)"
    by (simp add: get_credentials_def example_defs)
  have cred3: "get_credentials ?w3 = Inr (?e, ?p)"
    by (simp add: get_credentials_def example_defs py_def)
  have srv3: "server ?w3 [] (login_request ?e ?p) = Some login_ok"
    by (simp add: example_defs)
  have sign3: "sign_in ?w3 ?e ?p = (Inr ?xs, ?c)"
    by (simp add: sign_in_reply [OF srv3])
       (simp add: example_defs cookies_get_def jar_cookies_def extract_cookies_def
          set_cookie_def py_def)
  have create3: "create_text_note ?w3 ?c ?xs
                   = (Inl (HTTPStatusError 500), snd (create_text_note ?w3 ?c ?xs))"
    by (simp add: create_text_note_def send_eq created_note_def raise_for_status_def
        example_defs)
  note t = failed_step_ends_the_sequence
  from t [where w = ?w1 and email = ?e and password = ?p and resp = login_failed
            and title = "py ''Title''" and body = "py ''<p>Hi</p>''" and hashtags = None]
    cred1 srv1 st1
  have r1: "post_note_article ?w1 (py ''Title'') (py ''<p>Hi</p>'') None
              = (Inl (HTTPStatusError 401), [login_request ?e ?p])"
    "save_note_draft ?w1 (py ''Title'') (py ''<p>Hi</p>'') None
              = (Inl (HTTPStatusError 401), [login_request ?e ?p])"
    by simp_all
  from t [where w = ?w2 and e = "ValueError missing_email"
            and title = "py ''Title''" and body = "py ''<p>Hi</p>''" and hashtags = None] cred2
  have r2: "post_note_article ?w2 (py ''Title'') (py ''<p>Hi</p>'') None
              = (Inl (ValueError missing_email), [])"
    by simp
  from t [where w = ?w3 and email = ?e and password = ?p and xs = ?xs and c = ?c
            and e = "HTTPStatusError 500" and c' = "snd (create_text_note ?w3 ?c ?xs)"
            and title = "py ''Title''" and body = "py ''<p>Hi</p>''" and hashtags = None]
    cred3 sign3 create3
  have r3: "save_note_draft ?w3 (py ''Title'') (py ''<p>Hi</p>'') None
              = (Inl (HTTPStatusError 500),
                 [login_request ?e ?p, create_request login_jar ?xs])"
    by simp
  from create3 have create3': "fst (create_text_note ?w3 ?c ?xs) = Inl (HTTPStatusError 500)"
    by (metis fst_conv)
  show ?thesis
    using cred1 srv1 st1(1) r1 cred2 r2 sign3 create3' r3 by (intro conjI)
qed

text \<open>
  C6, as the spec states it: a 2xx login answer that sets no session cookie always gives the
  authentication-invariant \<open>RuntimeError\<close>. It does not hold: lines 58 and 142 read the
  anti-forgery cookie before the session cookie is tested, and \<open>httpx\<close> raises
  \<open>CookieConflict\<close> when the jar holds two cookies of that name. The login answer here sets
  no session cookie and two \<open>XSRF-TOKEN\<close> cookies under different paths.
\<close>

theorem login_without_session_cookie_conflict_example:
  "resp_status login_two_xsrf = 200 \<and>
   py ''_note_session_v5'' \<notin> ck_name ` set (resp_cookies login_two_xsrf) \<and>
   post_note_article (example_world example_query [Some login_two_xsrf])
       (py ''Title'') (py ''<p>Hi</p>'') None
     = (Inl CookieConflict, [login_request (py ''foo@gmail.com'') (py ''secret'')]) \<and>
   save_note_draft (example_world example_query [Some login_two_xsrf])
       (py ''Title'') (py ''<p>Hi</p>'') None
     = (Inl CookieConflict, [login_request (py ''foo@gmail.com'') (py ''secret'')]) \<and>
   fst (post_note_article (example_world example_query [Some login_two_xsrf])
       (py ''Title'') (py ''<p>Hi</p>'') None)
     \<noteq> Inl (RuntimeError no_session_message)"
  by (simp add: handler_defs example_defs py_def Let_def)

text \<open>
  C6, amended. For both operations: if the platform answers the login request with a status
  in 200..299 and sets no cookie named \<open>_note_session_v5\<close>, the operation fails and the login
  request is the only request issued. The failure is the \<open>RuntimeError\<close> of line 60 and 144
  whenever the jar holds at most one \<open>XSRF-TOKEN\<close> cookie; otherwise it is that error or the
  \<open>CookieConflict\<close> of the anti-forgery read.
\<close>

theorem login_without_session_cookie_fails:
  assumes "get_credentials w = Inr (email, password)"
    and "server w [] (login_request email password) = Some resp"
    and "200 \<le> resp_status resp \<and> resp_status resp \<le> 299"
    and "py ''_note_session_v5'' \<notin> ck_name ` set (resp_cookies resp)"
  shows "(length (filter (\<lambda>c. ck_name c = py ''XSRF-TOKEN'')
                   (jar_cookies (extract_cookies [] resp))) \<le> 1 \<longrightarrow>
            post_note_article w title body hashtags
              = (Inl (RuntimeError no_session_message), [login_request email password]) \<and>
            save_note_draft w title body hashtags
              = (Inl (RuntimeError no_session_message), [login_request email password]))
       \<and> (\<exists>e. (e = RuntimeError no_session_message \<or> e = CookieConflict) \<and>
              post_note_article w title body hashtags = (Inl e, [login_request email password]) \<and>
              save_note_draft w title body hashtags = (Inl e, [login_request email password]))"
proof -
  let ?J = "extract_cookies [] resp"
  have none: "cookies_get ?J (py ''_note_session_v5'') = Inr None"
    using assms(4) by (rule fresh_jar_absent)
  show ?thesis
  proof (cases "cookies_get ?J (py ''XSRF-TOKEN'')")
    case (Inl e)
    from cookies_get_conflict [OF Inl] have e: "e = CookieConflict"
      and two: "2 \<le> length (filter (\<lambda>c. ck_name c = py ''XSRF-TOKEN'') (jar_cookies ?J))"
      by simp_all
    have "sign_in w email password
            = (Inl CookieConflict, \<lparr>jar = ?J, sent = [login_request email password]\<rparr>)"
      using assms(3) none Inl e by (simp add: sign_in_reply [OF assms(2)])
    with assms(1) two show ?thesis
      by (simp add: post_note_article_def save_note_draft_def)
  next
    case (Inr x)
    have "sign_in w email password
            = (Inl (RuntimeError no_session_message),
               \<lparr>jar = ?J, sent = [login_request email password]\<rparr>)"
      using assms(3) none Inr by (simp add: sign_in_reply [OF assms(2)])
    with assms(1) show ?thesis
      by (simp add: post_note_article_def save_note_draft_def)
  qed
qed

text \<open>The login is answered with 200 and one anti-forgery cookie only.\<close>

theorem login_without_session_cookie_fails_witness:
  "get_credentials (example_world example_query [Some login_no_session])
     = Inr (py ''foo@gmail.com'', py ''secret'') \<and>
   server (example_world example_query [Some login_no_session]) []
       (login_request (py ''foo@gmail.com'') (py ''secret'')) = Some login_no_session \<and>
   200 \<le> resp_status login_no_session \<and> resp_status login_no_session \<le> 299 \<and>
   py ''_note_session_v5'' \<notin> ck_name ` set (resp_cookies login_no_session) \<and>
   length (filter (\<lambda>c. ck_name c = py ''XSRF-TOKEN'')
             (jar_cookies (extract_cookies [] login_no_session))) \<le> 1 \<and>
   post_note_article (example_world example_query [Some login_no_session])
       (py ''Title'') (py ''<p>Hi</p>'') None
     = (Inl (RuntimeError no_session_message),
        [login_request (py ''foo@gmail.com'') (py ''secret'')]) \<and>
   save_note_draft (example_world example_query [Some login_no_session])
       (py ''Title'') (py ''<p>Hi</p>'') None
     = (Inl (RuntimeError no_session_message),
        [login_request (py ''foo@gmail.com'') (py ''secret'')])"
proof -
  let ?e = "py ''foo@gmail.com''" and ?p = "py ''secret''"
  let ?w = "example_world example_query [Some login_no_session]"
  have cred: "get_credentials ?w = Inr (?e, ?p)"
    by (simp add: get_credentials_def example_defs py_def)
  have srv: "server ?w [] (login_request ?e ?p) = Some login_no_session"
    by (simp add: example_defs)
  have st: "200 \<le> resp_status login_no_session \<and> resp_status login_no_session \<le> 299"
    by (simp add: example_defs)
  have ck: "py ''_note_session_v5'' \<notin> ck_name ` set (resp_cookies login_no_session)"
    by (simp add: example_defs py_def)
  have one: "length (filter (\<lambda>c. ck_name c = py ''XSRF-TOKEN'')
               (jar_cookies (extract_cookies [] login_no_session))) \<le> 1"
    by (simp add: example_defs extract_cookies_def set_cookie_def jar_cookies_def py_def)
  from login_without_session_cookie_fails
         [OF cred srv st ck, of "py ''Title''" "py ''<p>Hi</p>''" None] one
  have "post_note_article ?w (py ''Title'') (py ''<p>Hi</p>'') None
          = (Inl (RuntimeError no_session_message), [login_request ?e ?p])"
    and "save_note_draft ?w (py ''Title'') (py ''<p>Hi</p>'') None
          = (Inl (RuntimeError no_session_message), [login_request ?e ?p])"
    by blast+
  with cred srv st ck one show ?thesis by blast
qed




text \<open>
  C9. In \<open>post_note_article\<close> the third request, whenever it is issued, is a PUT whose
  payload has \<open>body_length\<close> equal to the length of the body string as given, tags and
  entities included.
\<close>

theorem publish_body_length_is_raw_length:
  assumes "post_note_article w title body hashtags = (res, reqs)"
    and "2 < length reqs"
  shows "req_method (reqs ! 2) = PUT \<and>
         getitem (req_json (reqs ! 2)) (py ''body_length'') = Inr (JInt (int (length body)))"
proof -
  from post_third_request [OF assms] obtain c2 u hs slug a b where
    "reqs = [a, b, build_request c2 PUT u [] hs (put_body title body hashtags slug)]"
    by blast
  then show ?thesis by (simp add: build_request_def put_body_length)
qed

text \<open>
  A successful publish of \<open><p>Hello&nbsp;World</p>\<close>: the payload says 23, the length of
  the raw string.
\<close>

theorem publish_body_length_is_raw_length_witness:
  "2 < length (snd (post_note_article
         (example_world example_query [Some login_ok, Some created_ok, Some (url_response 200)])
         (py ''Title'') (py ''<p>Hello&nbsp;World</p>'') None)) \<and>
   req_method (snd (post_note_article
         (example_world example_query [Some login_ok, Some created_ok, Some (url_response 200)])
         (py ''Title'') (py ''<p>Hello&nbsp;World</p>'') None) ! 2) = PUT \<and>
   getitem (req_json (snd (post_note_article
         (example_world example_query [Some login_ok, Some created_ok, Some (url_response 200)])
         (py ''Title'') (py ''<p>Hello&nbsp;World</p>'') None) ! 2)) (py ''body_length'')
     = Inr (JInt 23)"
proof -
  let ?run = "post_note_article
         (example_world example_query [Some login_ok, Some created_ok, Some (url_response 200)])
         (py ''Title'') (py ''<p>Hello&nbsp;World</p>'') None"
  have len: "2 < length (snd ?run)"
    by (simp add: handler_defs example_defs py_def Let_def)
  have run: "?run = (fst ?run, snd ?run)" by simp
  have "int (length (py ''<p>Hello&nbsp;World</p>'')) = 23"
    by (simp add: py_def)
  with publish_body_length_is_raw_length [OF run len] len show ?thesis
    by simp
qed




text \<open>
  C2, as the spec states it: a successful publish hands no payload back. It does not hold:
  line 103 returns the value found in the response, and the annotation \<open>-> None\<close> does not
  discard it. On a platform that accepts all three requests the handler's result is the URL.
\<close>

theorem publish_returns_the_url_example:
  "fst (post_note_article
          (example_world example_query [Some login_ok, Some created_ok, Some (url_response 200)])
          (py ''Title'') (py ''<p>Hi</p>'') None)
     = Inr (JStr (py ''https://note.com/foo/n/n1'')) \<and>
   fst (post_note_article
          (example_world example_query [Some login_ok, Some created_ok, Some (url_response 200)])
          (py ''Title'') (py ''<p>Hi</p>'') None)
     \<noteq> Inr JNull"
  by (simp add: handler_defs example_defs py_def Let_def)

text \<open>
  C2, amended. Whenever \<open>post_note_article\<close> returns normally, it has issued three requests
  and its result is the value at \<open>data.note_url\<close> of the JSON body of the answer to the third
  one, the PUT: the handler returns the URL it computes.
\<close>

theorem publish_returns_the_url_of_the_response:
  assumes "post_note_article w title body hashtags = (Inr v, reqs)"
  shows "\<exists>resp j d. length reqs = 3 \<and> req_method (reqs ! 2) = PUT \<and>
           server w (take 2 reqs) (reqs ! 2) = Some resp \<and>
           resp_json resp = Some j \<and> getitem j (py ''data'') = Inr d \<and>
           getitem d (py ''note_url'') = Inr v"
proof -
  from post_third_request [OF assms post_success_length [OF assms]] obtain a b r3 where
    reqs: "reqs = [a, b, r3]" and put: "req_method r3 = PUT"
    and res: "Inr v = (case server w [a, b] r3 of
                    None \<Rightarrow> Inl TransportError
                  | Some put_resp \<Rightarrow>
                      sum_bind (response_json put_resp) (\<lambda>j.
                      sum_bind (getitem j (py ''data'')) (\<lambda>d.
                      getitem d (py ''note_url''))))"
    by (auto simp: build_request_def)
  from res obtain resp where resp: "server w [a, b] r3 = Some resp"
    by (cases "server w [a, b] r3") auto
  with res obtain j where j: "resp_json resp = Some j"
    by (cases "resp_json resp") (auto simp: response_json_def)
  with res resp obtain d where d: "getitem j (py ''data'') = Inr d"
    by (cases "getitem j (py ''data'')") (auto simp: response_json_def)
  with res resp j have "getitem d (py ''note_url'') = Inr v"
    by (simp add: response_json_def)
  with reqs put resp j d show ?thesis by simp
qed

theorem publish_returns_the_url_of_the_response_witness:
  "post_note_article
     (example_world example_query [Some login_ok, Some created_ok, Some (url_response 200)])
     (py ''Title'') (py ''<p>Hi</p>'') None
     = (Inr (JStr (py ''https://note.com/foo/n/n1'')),
        snd (post_note_article
          (example_world example_query [Some login_ok, Some created_ok, Some (url_response 200)])
          (py ''Title'') (py ''<p>Hi</p>'') None)) \<and>
   (\<exists>resp j d.
      length (snd (post_note_article
          (example_world example_query [Some login_ok, Some created_ok, Some (url_response 200)])
          (py ''Title'') (py ''<p>Hi</p>'') None)) = 3 \<and>
      server
        (example_world example_query [Some login_ok, Some created_ok, Some (url_response 200)])
        (take 2 (snd (post_note_article
          (example_world example_query [Some login_ok, Some created_ok, Some (url_response 200)])
          (py ''Title'') (py ''<p>Hi</p>'') None)))
        (snd (post_note_article
          (example_world example_query [Some login_ok, Some created_ok, Some (url_response 200)])
          (py ''Title'') (py ''<p>Hi</p>'') None) ! 2) = Some resp \<and>
      resp_json resp = Some j \<and> getitem j (py ''data'') = Inr d \<and>
      getitem d (py ''note_url'') = Inr (JStr (py ''https://note.com/foo/n/n1'')))"
proof -
  let ?run = "post_note_article
     (example_world example_query [Some login_ok, Some created_ok, Some (url_response 200)])
     (py ''Title'') (py ''<p>Hi</p>'') None"
  have "fst ?run = Inr (JStr (py ''https://note.com/foo/n/n1''))"
    by (simp add: handler_defs example_defs py_def Let_def)
  then have run: "?run = (Inr (JStr (py ''https://note.com/foo/n/n1'')), snd ?run)"
    by (metis prod.collapse)
  from publish_returns_the_url_of_the_response [OF run] run show ?thesis
    by blast
qed

text \<open>
  C1. A non-success status of any downstream request makes the publish operation fail with
  an HTTP status error. \<open>post_note_article\<close> checks the status of the login and of the
  creation response (lines 56 and 65) but never that of the PUT response (lines 97-103),
  which \<open>save_note_draft\<close> does for its own third request (line 177). So a PUT answered
  with 500 and a body that has \<open>data.note_url\<close> makes the publish return normally, where the
  same answer makes the draft save fail with the status error; and a PUT answered with 422
  and an error body fails with a \<open>KeyError\<close>, not with a status error.
\<close>

theorem publish_put_status_unchecked:
  "raise_for_status (url_response 500) = Inl (HTTPStatusError 500) \<and>
   post_note_article
     (example_world example_query [Some login_ok, Some created_ok, Some (url_response 500)])
     (py ''Title'') (py ''<p>Hi</p>'') None
     = (Inr (JStr (py ''https://note.com/foo/n/n1'')),
        [login_request (py ''foo@gmail.com'') (py ''secret''),
         create_request login_jar [(py ''X-XSRF-TOKEN'', py ''tok'')],
         build_request \<lparr>jar = login_jar, sent = []\<rparr> PUT
           (py ''https://note.com/api/v1/text_notes/42'') []
           [(py ''X-XSRF-TOKEN'', py ''tok''), content_type_json]
           (put_body (py ''Title'') (py ''<p>Hi</p>'') None (py ''abcd1234''))]) \<and>
   fst (save_note_draft
     (example_world example_query [Some login_ok, Some created_ok, Some (url_response 500)])
     (py ''Title'') (py ''<p>Hi</p>'') None) = Inl (HTTPStatusError 500) \<and>
   raise_for_status put_rejected = Inl (HTTPStatusError 422) \<and>
   fst (post_note_article
     (example_world example_query [Some login_ok, Some created_ok, Some put_rejected])
     (py ''Title'') (py ''<p>Hi</p>'') None) = Inl (KeyError (py ''data''))"
  by (simp add: handler_defs example_defs unescape_defs py_def Let_def)

text \<open>
  Where line 186 falls back to the URL built from the key: the body is not JSON, or it is
  an object with no \<open>data\<close>, or \<open>data\<close> is an object whose \<open>note_url\<close> is missing or
  falsy. (A JSON body that is no object is covered too: its \<open>.get\<close> raises inside the
  \<open>try\<close>.)
\<close>

lemma draft_url_fallback:
  assumes "(case resp_json resp of
              Some (JObj kvs) \<Rightarrow>
                (case map_of kvs (py ''data'') of
                   None \<Rightarrow> True
                 | Some (JObj d) \<Rightarrow>
                     (case map_of d (py ''note_url'') of None \<Rightarrow> True | Some u \<Rightarrow> \<not> truthy u)
                 | Some _ \<Rightarrow> False)
            | _ \<Rightarrow> True)"
  shows "draft_url w (draft_data resp) (JStr key)
           = Inr (JStr (py ''https://note.com/notes/'' @ key @ py ''?draft=1''))"
proof -
  have "\<exists>d. draft_data resp = JObj d \<and>
          (case map_of d (py ''note_url'') of None \<Rightarrow> True | Some u \<Rightarrow> \<not> truthy u)"
  proof (cases "resp_json resp")
    case None
    then show ?thesis by (simp add: draft_data_def response_json_def)
  next
    case (Some j)
    show ?thesis
    proof (cases j)
      case (JObj kvs)
      show ?thesis
      proof (cases "map_of kvs (py ''data'')")
        case None
        with Some JObj show ?thesis by (simp add: draft_data_def response_json_def)
      next
        case found: (Some v)
        with assms Some JObj obtain d where v: "v = JObj d"
          and d: "(case map_of d (py ''note_url'') of None \<Rightarrow> True | Some u \<Rightarrow> \<not> truthy u)"
          by (cases v) auto
        with Some JObj found show ?thesis by (simp add: draft_data_def response_json_def)
      qed
    qed (simp_all add: Some draft_data_def response_json_def)
  qed
  then obtain d where "draft_data resp = JObj d"
    and "(case map_of d (py ''note_url'') of None \<Rightarrow> True | Some u \<Rightarrow> \<not> truthy u)"
    by blast
  then show ?thesis
    by (cases "map_of d (py ''note_url'')") (simp_all add: draft_url_def py_str_def)
qed

text \<open>
  C3. A draft-save response whose body is not JSON or has no \<open>note_url\<close> gives the fallback
  URL built from the key and never an error. With the body \<open>{"data": null}\<close>, which has no
  \<open>note_url\<close>, \<open>data\<close> is \<open>None\<close> and \<open>data.get("note_url")\<close> on line 186, outside the \<open>try\<close>,
  raises \<open>AttributeError\<close>; with the body \<open>{}\<close> the fallback is returned.
\<close>

theorem draft_data_null_raises:
  "fst (save_note_draft
     (example_world example_query [Some login_ok, Some created_ok, Some draft_data_null])
     (py ''Title'') (py ''<p>Hi</p>'') None) = Inl AttributeError \<and>
   resp_json draft_data_null = Some (JObj [(py ''data'', JNull)]) \<and>
   raise_for_status draft_data_null = Inr () \<and>
   fst (save_note_draft
     (example_world example_query [Some login_ok, Some created_ok, Some draft_no_data])
     (py ''Title'') (py ''<p>Hi</p>'') None)
     = Inr (JStr (py ''https://note.com/notes/abcd1234?draft=1''))"
  by (simp add: handler_defs example_defs unescape_defs py_def Let_def)

end
